theory Spec2Isabelle
  imports Main
begin

section \<open>Python values and exceptions\<close>

text \<open>
  The exceptions of \<^verbatim>\<open>cifar100_dataset.py\<close> are values: \<open>Inl\<close> of an
  \<open>error\<close> is a raise. \<open>TypeError\<close>, \<open>ValueError\<close> and \<open>IndexError\<close> are Python's;
  \<open>OpError\<close> stands for a failure raised inside a tensor operation of the runtime.
\<close>

datatype error = TypeError string | ValueError string | IndexError string | OpError string

text \<open>
  The dynamically typed arguments (\<open>crop_shape\<close>, \<open>serializable\<close>) range over the
  objects below; an iterable is an iterable of integers, as the annotation
  \<^verbatim>\<open>Tuple[int, int, int]\<close> says.
\<close>

datatype pyobj = PyNone | PyBool bool | PyInt int | PyInts "int list"

fun isinstance_Iterable :: "pyobj \<Rightarrow> bool" where
  "isinstance_Iterable (PyInts xs) = True"
| "isinstance_Iterable x = False"

fun isinstance_bool :: "pyobj \<Rightarrow> bool" where
  "isinstance_bool (PyBool b) = True"
| "isinstance_bool x = False"

text \<open>\<^verbatim>\<open>tuple(x)\<close>: raises on an object that is not iterable.\<close>

fun tuple_of :: "pyobj \<Rightarrow> error + int list" where
  "tuple_of (PyInts xs) = Inr xs"
| "tuple_of x = Inl (TypeError ''object is not iterable'')"

text \<open>\<^verbatim>\<open>not x\<close>: Python's truth value of an object, negated.\<close>

fun py_not :: "pyobj \<Rightarrow> bool" where
  "py_not PyNone = True"
| "py_not (PyBool b) = (\<not> b)"
| "py_not (PyInt n) = (n = 0)"
| "py_not (PyInts xs) = (xs = [])"

text \<open>\<^verbatim>\<open>t[i]\<close> for a constant index \<open>i \<ge> 0\<close>: raises out of range.\<close>

definition getitem :: "int list \<Rightarrow> nat \<Rightarrow> error + int" where
  "getitem t i = (if i < length t then Inr (t ! i) else Inl (IndexError ''tuple index out of range''))"

section \<open>Module constants\<close>

definition CIFAR_SHAPE :: "int list" where
  "CIFAR_SHAPE = [32, 32, 3]"

definition TOTAL_FEATURE_SIZE :: int where
  "TOTAL_FEATURE_SIZE = 32 * 32 * 3"

definition NUM_EXAMPLES_PER_CLIENT :: int where
  "NUM_EXAMPLES_PER_CLIENT = 500"

text \<open>The value of \<^verbatim>\<open>tf.data.experimental.AUTOTUNE\<close>, the default parallelism hint.\<close>

definition AUTOTUNE :: int where
  "AUTOTUNE = - 1"

section \<open>The tensor runtime\<close>

text \<open>An element of the dataset: the three features declared by \<^verbatim>\<open>feature_dtypes\<close>.\<close>

record ('img, 'lab) example =
  coarse_label :: 'lab
  image_feature :: 'img
  label :: 'lab

type_synonym ('img, 'lab, 'g) image_map =
  "('img, 'lab) example \<Rightarrow> 'g \<Rightarrow> (error + 'img \<times> 'lab) \<times> 'g"

text \<open>
  The operations of the tensor runtime are parameters of the model: a record of
  functions over an arbitrary tensor type \<open>'img\<close>. Each image operation may fail. The two
  random operations read and advance the runtime's random state \<open>'g\<close>; the others do not
  see it.

  The last five fields are what the runtime does when a pipeline is traced. Each of
  \<^verbatim>\<open>shuffle\<close>, \<^verbatim>\<open>repeat\<close> and \<^verbatim>\<open>batch\<close> may reject its argument:
  \<open>shuffle_error\<close>, \<open>repeat_error\<close> and \<open>batch_error\<close> give the error raised, \<open>None\<close>
  when the argument is accepted. \<^verbatim>\<open>map\<close> runs the mapped function once, on the
  symbolic element of the batched dataset (\<open>trace_element\<close>), in the random state of the
  trace (\<open>trace_state\<close>).
\<close>

record ('img, 'lab, 'g) tf_runtime =
  cast_float32 :: "'img \<Rightarrow> 'img"
  random_crop :: "'img \<Rightarrow> int list \<Rightarrow> 'g \<Rightarrow> (error + 'img) \<times> 'g"
  random_flip_left_right :: "'img \<Rightarrow> 'g \<Rightarrow> (error + 'img) \<times> 'g"
  resize_with_crop_or_pad :: "'img \<Rightarrow> int \<Rightarrow> int \<Rightarrow> error + 'img"
  per_image_standardization :: "'img \<Rightarrow> error + 'img"
  shuffle_error :: "int \<Rightarrow> error option"
  repeat_error :: "int \<Rightarrow> error option"
  batch_error :: "int \<Rightarrow> error option"
  trace_element :: "('img, 'lab) example"
  trace_state :: 'g

section \<open>build_image_map\<close>

text \<open>
  The two definitions of \<^verbatim>\<open>crop_fn\<close>, chosen by \<open>distort\<close>. The plain one reads
  \<^verbatim>\<open>crop_shape[1]\<close> and \<^verbatim>\<open>crop_shape[2]\<close>.
\<close>

definition crop_fn ::
  "('img, 'lab, 'g) tf_runtime \<Rightarrow> int list \<Rightarrow> bool \<Rightarrow> 'img \<Rightarrow> 'g \<Rightarrow> (error + 'img) \<times> 'g" where
  "crop_fn tf crop_shape distort img g =
     (if distort then
        (case random_crop tf img crop_shape g of
           (Inl e, g') \<Rightarrow> (Inl e, g')
         | (Inr img', g') \<Rightarrow> random_flip_left_right tf img' g')
      else
        (case getitem crop_shape 1 of
           Inl e \<Rightarrow> (Inl e, g)
         | Inr target_height \<Rightarrow>
             (case getitem crop_shape 2 of
                Inl e \<Rightarrow> (Inl e, g)
              | Inr target_width \<Rightarrow>
                  (resize_with_crop_or_pad tf img target_height target_width, g))))"

definition build_image_map ::
  "('img, 'lab, 'g) tf_runtime \<Rightarrow> int list \<Rightarrow> bool \<Rightarrow> ('img, 'lab, 'g) image_map" where
  "build_image_map tf crop_shape distort =
     (\<lambda>ex g.
        (case crop_fn tf crop_shape distort (cast_float32 tf (image_feature ex)) g of
           (Inl e, g') \<Rightarrow> (Inl e, g')
         | (Inr img, g') \<Rightarrow>
             (case per_image_standardization tf img of
                Inl e \<Rightarrow> (Inl e, g')
              | Inr img' \<Rightarrow> (Inr (img', label ex), g'))))"

section \<open>Datasets and create_preprocess_fn\<close>

text \<open>
  A \<^verbatim>\<open>tf.data.Dataset\<close> is a description of a computation: a source and the
  transformations applied to it, innermost first. The computation that
  \<open>create_preprocess_fn\<close> returns is the function \<open>preprocess_fn\<close> over such
  descriptions; the element type it declares is the record \<open>example\<close>. \<open>'f\<close> is the type of the mapped
  function; the last argument of \<open>MapDataset\<close> is \<^verbatim>\<open>num_parallel_calls\<close>.
\<close>

datatype ('s, 'f) dataset =
    Source 's
  | ShuffleDataset "('s, 'f) dataset" int
  | RepeatDataset "('s, 'f) dataset" int
  | BatchDataset "('s, 'f) dataset" int
  | MapDataset "('s, 'f) dataset" 'f int

definition preprocess_fn ::
  "int \<Rightarrow> int \<Rightarrow> int \<Rightarrow> 'f \<Rightarrow> int \<Rightarrow> ('s, 'f) dataset \<Rightarrow> ('s, 'f) dataset" where
  "preprocess_fn shuffle_buffer_size num_epochs batch_size image_map_fn num_parallel_calls ds =
     MapDataset
       (BatchDataset (RepeatDataset (ShuffleDataset ds shuffle_buffer_size) num_epochs) batch_size)
       image_map_fn num_parallel_calls"

text \<open>The element type that \<open>create_preprocess_fn\<close> declares for the input of the pipeline.\<close>

datatype dtype = tf_int64 | tf_uint8 | tf_float32

definition feature_dtypes :: "(string \<times> dtype \<times> int list) list" where
  "feature_dtypes =
     [(''coarse_label'', tf_int64, []),
      (''image'', tf_uint8, [32, 32, 3]),
      (''label'', tf_int64, [])]"

text \<open>
  The decorator \<^verbatim>\<open>@tff.tf_computation(tff.SequenceType(feature_dtypes))\<close> is given
  the type of the argument, so it runs the body of \<^verbatim>\<open>preprocess_fn\<close> at once, on a
  placeholder dataset of that type: \<^verbatim>\<open>shuffle\<close>, \<^verbatim>\<open>repeat\<close>, \<^verbatim>\<open>batch\<close>,
  then \<^verbatim>\<open>map\<close>, which runs \<open>image_map_fn\<close> on the symbolic batched element. The first
  error raised on the way is raised by \<open>create_preprocess_fn\<close> itself;
  \<open>trace_preprocess_fn\<close> gives that error, \<open>None\<close> when the trace goes through.
\<close>

definition trace_preprocess_fn ::
  "('img, 'lab, 'g) tf_runtime \<Rightarrow> int \<Rightarrow> int \<Rightarrow> int \<Rightarrow> ('img, 'lab, 'g) image_map \<Rightarrow> error option" where
  "trace_preprocess_fn tf shuffle_buffer_size num_epochs batch_size image_map_fn =
     (case shuffle_error tf shuffle_buffer_size of
        Some e \<Rightarrow> Some e
      | None \<Rightarrow>
          (case repeat_error tf num_epochs of
             Some e \<Rightarrow> Some e
           | None \<Rightarrow>
               (case batch_error tf batch_size of
                  Some e \<Rightarrow> Some e
                | None \<Rightarrow>
                    (case fst (image_map_fn (trace_element tf) (trace_state tf)) of
                       Inl e \<Rightarrow> Some e
                     | Inr out \<Rightarrow> None))))"

definition create_preprocess_fn ::
  "('img, 'lab, 'g) tf_runtime \<Rightarrow> int \<Rightarrow> int \<Rightarrow> int \<Rightarrow> int list \<Rightarrow> bool \<Rightarrow> int \<Rightarrow>
     error + (('s, ('img, 'lab, 'g) image_map) dataset \<Rightarrow> ('s, ('img, 'lab, 'g) image_map) dataset)" where
  "create_preprocess_fn tf num_epochs batch_size shuffle_buffer_size crop_shape distort_image
       num_parallel_calls =
     (if num_epochs < 1 then Inl (ValueError ''num_epochs must be a positive integer.'')
      else
        (let shuffle_buffer_size' = (if shuffle_buffer_size \<le> 1 then 1 else shuffle_buffer_size);
             image_map_fn = build_image_map tf crop_shape distort_image
         in
           (case trace_preprocess_fn tf shuffle_buffer_size' num_epochs batch_size image_map_fn of
              Some e \<Rightarrow> Inl e
            | None \<Rightarrow>
                Inr (preprocess_fn shuffle_buffer_size' num_epochs batch_size image_map_fn
                       num_parallel_calls))))"

text \<open>
  The arguments that the runtime accepts: those for which the trace that
  \<open>create_preprocess_fn\<close> makes of its pipeline raises no error.
\<close>

definition traces ::
  "('img, 'lab, 'g) tf_runtime \<Rightarrow> int \<Rightarrow> int \<Rightarrow> int \<Rightarrow> int list \<Rightarrow> bool \<Rightarrow> bool" where
  "traces tf num_epochs batch_size shuffle_buffer_size crop_shape distort_image =
     (trace_preprocess_fn tf (if shuffle_buffer_size \<le> 1 then 1 else shuffle_buffer_size)
        num_epochs batch_size (build_image_map tf crop_shape distort_image) = None)"

section \<open>The dataset provider and the two assemblers\<close>

text \<open>
  In the message of the type error for \<open>serializable\<close> the two format arguments are left
  as the placeholders of the template.

  The provider's \<^verbatim>\<open>load_data()\<close> returns the handles of the train and test
  splits. The load is an effect: the world counts the loads that were triggered.
\<close>

record world =
  loads :: nat

definition load_data :: "'c \<times> 'c \<Rightarrow> world \<Rightarrow> ('c \<times> 'c) \<times> world" where
  "load_data provider w = (provider, w\<lparr>loads := loads w + 1\<rparr>)"

text \<open>\<^verbatim>\<open>ClientData.preprocess\<close>: the split with a pipeline attached to every client dataset.\<close>

record ('c, 'd) preprocessed_client_data =
  raw_client_data :: 'c
  client_preprocess_fn :: "'d \<Rightarrow> 'd"

definition preprocess :: "'c \<Rightarrow> ('d \<Rightarrow> 'd) \<Rightarrow> ('c, 'd) preprocessed_client_data" where
  "preprocess cd fn = \<lparr>raw_client_data = cd, client_preprocess_fn = fn\<rparr>"

text \<open>\<^verbatim>\<open>create_tf_dataset_from_all_clients\<close>: the pooled dataset of a split.\<close>

datatype 'c source = AllClients 'c

definition create_tf_dataset_from_all_clients :: "'c \<Rightarrow> ('c source, 'f) dataset" where
  "create_tf_dataset_from_all_clients cd = Source (AllClients cd)"

definition get_federated_datasets ::
  "('img, 'lab, 'g) tf_runtime \<Rightarrow> 'c \<times> 'c \<Rightarrow> int \<Rightarrow> int \<Rightarrow> int \<Rightarrow> int \<Rightarrow> int \<Rightarrow> int \<Rightarrow> pyobj \<Rightarrow> pyobj \<Rightarrow> world \<Rightarrow>
     (error + ('c, ('s, ('img, 'lab, 'g) image_map) dataset) preprocessed_client_data
            \<times> ('c, ('s, ('img, 'lab, 'g) image_map) dataset) preprocessed_client_data) \<times> world" where
  "get_federated_datasets tf provider train_client_batch_size test_client_batch_size
       train_client_epochs_per_round test_client_epochs_per_round
       train_shuffle_buffer_size test_shuffle_buffer_size crop_shape serializable w =
     (if \<not> isinstance_Iterable crop_shape then
        (Inl (TypeError ''Argument crop_shape must be an iterable.''), w)
      else
        (case tuple_of crop_shape of
           Inl e \<Rightarrow> (Inl e, w)
         | Inr crop_shape' \<Rightarrow>
             if length crop_shape' \<noteq> 3 then
               (Inl (ValueError ''The crop_shape must have length 3, corresponding to a tensor of shape [height, width, channels].''), w)
             else if \<not> isinstance_bool serializable then
               (Inl (TypeError ''serializable must be a Boolean; you passed {} of type {}.''), w)
             else if train_client_epochs_per_round < 1 then
               (Inl (ValueError ''train_client_epochs_per_round must be a positive integer.''), w)
             else if test_client_epochs_per_round < 0 then
               (Inl (ValueError ''test_client_epochs_per_round must be a positive integer.''), w)
             else
               (let train_shuffle_buffer_size' =
                      (if train_shuffle_buffer_size \<le> 1 then 1 else train_shuffle_buffer_size);
                    test_shuffle_buffer_size' =
                      (if test_shuffle_buffer_size \<le> 1 then 1 else test_shuffle_buffer_size);
                    (cifar, w') = load_data provider w;
                    train_crop_shape = train_client_batch_size # crop_shape';
                    test_crop_shape = test_client_batch_size # crop_shape'
                in
                  (case create_preprocess_fn tf train_client_epochs_per_round
                          train_client_batch_size train_shuffle_buffer_size' train_crop_shape
                          (py_not serializable) AUTOTUNE of
                     Inl e \<Rightarrow> (Inl e, w')
                   | Inr train_preprocess_fn \<Rightarrow>
                       (case create_preprocess_fn tf test_client_epochs_per_round
                               test_client_batch_size test_shuffle_buffer_size' test_crop_shape
                               False AUTOTUNE of
                          Inl e \<Rightarrow> (Inl e, w')
                        | Inr test_preprocess_fn \<Rightarrow>
                            (Inr (preprocess (fst cifar) train_preprocess_fn,
                                  preprocess (snd cifar) test_preprocess_fn), w'))))))"

definition get_centralized_datasets ::
  "('img, 'lab, 'g) tf_runtime \<Rightarrow> 'c \<times> 'c \<Rightarrow> int \<Rightarrow> int \<Rightarrow> int \<Rightarrow> int \<Rightarrow> pyobj \<Rightarrow> world \<Rightarrow>
     (error + ('c source, ('img, 'lab, 'g) image_map) dataset
            \<times> ('c source, ('img, 'lab, 'g) image_map) dataset) \<times> world" where
  "get_centralized_datasets tf provider train_batch_size test_batch_size
       train_shuffle_buffer_size test_shuffle_buffer_size crop_shape w =
     (case tuple_of crop_shape of
        Inl e \<Rightarrow>
          (Inl (ValueError ''Argument crop_shape must be able to coerced into a length 3 tuple.''), w)
      | Inr crop_shape' \<Rightarrow>
          if length crop_shape' \<noteq> 3 then
            (Inl (ValueError ''The crop_shape must have length 3, corresponding to a tensor of shape [height, width, channels].''), w)
          else
            (let train_shuffle_buffer_size' =
                   (if train_shuffle_buffer_size \<le> 1 then 1 else train_shuffle_buffer_size);
                 test_shuffle_buffer_size' =
                   (if test_shuffle_buffer_size \<le> 1 then 1 else test_shuffle_buffer_size);
                 (cifar, w') = load_data provider w;
                 cifar_train = create_tf_dataset_from_all_clients (fst cifar);
                 cifar_test = create_tf_dataset_from_all_clients (snd cifar);
                 train_crop_shape = train_batch_size # crop_shape';
                 test_crop_shape = test_batch_size # crop_shape'
             in
               (case create_preprocess_fn tf 1 train_batch_size train_shuffle_buffer_size'
                       train_crop_shape True AUTOTUNE of
                  Inl e \<Rightarrow> (Inl e, w')
                | Inr train_preprocess_fn \<Rightarrow>
                    (case create_preprocess_fn tf 1 test_batch_size test_shuffle_buffer_size'
                            test_crop_shape False AUTOTUNE of
                       Inl e \<Rightarrow> (Inl e, w')
                     | Inr test_preprocess_fn \<Rightarrow>
                         (Inr (train_preprocess_fn cifar_train, test_preprocess_fn cifar_test),
                          w')))))"

section \<open>A runtime that records the operations\<close>

text \<open>
  An instance of the runtime for concrete inputs: a tensor is the term of the operations
  that built it, and each random operation records the random state it drew from and
  advances it. \<open>BatchOf t\<close> is the tensor of a batch of \<open>t\<close>: one more dimension in
  front. The rank of a placeholder is the one \<open>feature_dtypes\<close> declares for its name.

  The instance rejects two kinds of arguments: \<open>random_crop\<close> raises a value error
  when the length of \<open>size\<close> is not the rank of the tensor (the message is shortened),
  and \<open>shuffle\<close>, \<open>repeat\<close> and \<open>batch\<close> reject a count outside the 64-bit signed
  range. Every other operation succeeds.
\<close>

datatype tensor =
    Placeholder string
  | BatchOf tensor
  | Cast tensor
  | RandomCrop tensor "int list" nat
  | RandomFlipLeftRight tensor nat
  | ResizeWithCropOrPad tensor int int
  | PerImageStandardization tensor

fun tensor_rank :: "tensor \<Rightarrow> nat" where
  "tensor_rank (Placeholder name) =
     (case map_of feature_dtypes name of None \<Rightarrow> 0 | Some (dt, shape) \<Rightarrow> length shape)"
| "tensor_rank (BatchOf t) = Suc (tensor_rank t)"
| "tensor_rank (Cast t) = tensor_rank t"
| "tensor_rank (RandomCrop t sz g) = tensor_rank t"
| "tensor_rank (RandomFlipLeftRight t g) = tensor_rank t"
| "tensor_rank (ResizeWithCropOrPad t h w) = tensor_rank t"
| "tensor_rank (PerImageStandardization t) = tensor_rank t"

definition int64_error :: "int \<Rightarrow> error option" where
  "int64_error n =
     (if - 9223372036854775808 \<le> n \<and> n \<le> 9223372036854775807 then None
      else Some (OpError ''value out of range for int64''))"

definition symbolic_tf :: "(tensor, tensor, nat) tf_runtime" where
  "symbolic_tf =
     \<lparr>cast_float32 = Cast,
      random_crop =
        (\<lambda>t size g.
           if length size \<noteq> tensor_rank t then (Inl (ValueError ''Dimensions must be equal''), g)
           else (Inr (RandomCrop t size g), Suc g)),
      random_flip_left_right = (\<lambda>t g. (Inr (RandomFlipLeftRight t g), Suc g)),
      resize_with_crop_or_pad = (\<lambda>t h w. Inr (ResizeWithCropOrPad t h w)),
      per_image_standardization = (\<lambda>t. Inr (PerImageStandardization t)),
      shuffle_error = int64_error,
      repeat_error = int64_error,
      batch_error = int64_error,
      trace_element =
        \<lparr>coarse_label = BatchOf (Placeholder ''coarse_label''),
         image_feature = BatchOf (Placeholder ''image''),
         label = BatchOf (Placeholder ''label'')\<rparr>,
      trace_state = 0\<rparr>"

definition sample :: "(tensor, tensor) example" where
  "sample = \<lparr>coarse_label = Placeholder ''coarse_label'',
             image_feature = Placeholder ''image'',
             label = Placeholder ''label''\<rparr>"

text \<open>Applying the result of \<open>create_preprocess_fn\<close> to a dataset, when there is one.\<close>

definition run_pipeline :: "error + ('d \<Rightarrow> 'd) \<Rightarrow> 'd \<Rightarrow> error + 'd" where
  "run_pipeline r ds = (case r of Inl e \<Rightarrow> Inl e | Inr f \<Rightarrow> Inr (f ds))"

text \<open>
  The transform that the documentation of \<^verbatim>\<open>build_image_map\<close> describes for
  \<open>distort = False\<close>, with the target height and width as arguments: cast to float,
  centered crop-or-pad to the target height and width, per-image standardization, paired
  with the label. It never touches the random state.
\<close>

definition resized_to ::
  "('img, 'lab, 'g) tf_runtime \<Rightarrow> int \<Rightarrow> int \<Rightarrow> ('img, 'lab, 'g) image_map" where
  "resized_to tf target_height target_width =
     (\<lambda>ex g.
        (case resize_with_crop_or_pad tf (cast_float32 tf (image_feature ex))
                target_height target_width of
           Inl e \<Rightarrow> (Inl e, g)
         | Inr img \<Rightarrow>
             (case per_image_standardization tf img of
                Inl e \<Rightarrow> (Inl e, g)
              | Inr img' \<Rightarrow> (Inr (img', label ex), g))))"

type_synonym sym_dataset = "(string, (tensor, tensor, nat) image_map) dataset"

type_synonym sym_pooled = "(string source, (tensor, tensor, nat) image_map) dataset"

type_synonym sym_clients = "(string, sym_dataset) preprocessed_client_data"

section \<open>Shared facts\<close>

lemmas symbolic_trace =
  traces_def trace_preprocess_fn_def build_image_map_def crop_fn_def getitem_def
  symbolic_tf_def int64_error_def feature_dtypes_def

lemma build_image_map_plain:
  "build_image_map tf (a # target_height # target_width # t) False
     = resized_to tf target_height target_width"
  by (rule ext, rule ext)
     (simp add: build_image_map_def crop_fn_def resized_to_def getitem_def split: sum.split)

lemma create_preprocess_fn_ok:
  "1 \<le> num_epochs \<Longrightarrow>
   traces tf num_epochs batch_size shuffle_buffer_size crop_shape distort \<Longrightarrow>
   create_preprocess_fn tf num_epochs batch_size shuffle_buffer_size crop_shape distort npc
     = Inr (preprocess_fn (if shuffle_buffer_size \<le> 1 then 1 else shuffle_buffer_size)
              num_epochs batch_size (build_image_map tf crop_shape distort) npc)"
  by (simp add: create_preprocess_fn_def traces_def Let_def)

lemma traces_normalized:
  "traces tf num_epochs batch_size (if shuffle_buffer_size \<le> 1 then 1 else shuffle_buffer_size)
       crop_shape distort
     = traces tf num_epochs batch_size shuffle_buffer_size crop_shape distort"
  by (simp add: traces_def)

lemma get_federated_datasets_valid:
  "length cs = 3 \<Longrightarrow> 1 \<le> train_epochs \<Longrightarrow> 1 \<le> test_epochs \<Longrightarrow>
   traces tf train_epochs train_bs train_sb (train_bs # cs) (\<not> s) \<Longrightarrow>
   traces tf test_epochs test_bs test_sb (test_bs # cs) False \<Longrightarrow>
   get_federated_datasets tf provider train_bs test_bs train_epochs test_epochs
       train_sb test_sb (PyInts cs) (PyBool s) w
     = (Inr (preprocess (fst provider)
               (preprocess_fn (if train_sb \<le> 1 then 1 else train_sb) train_epochs train_bs
                  (build_image_map tf (train_bs # cs) (\<not> s)) AUTOTUNE),
             preprocess (snd provider)
               (preprocess_fn (if test_sb \<le> 1 then 1 else test_sb) test_epochs test_bs
                  (build_image_map tf (test_bs # cs) False) AUTOTUNE)),
        w\<lparr>loads := loads w + 1\<rparr>)"
  by (simp add: get_federated_datasets_def load_data_def create_preprocess_fn_ok
      traces_normalized Let_def)

lemma get_centralized_datasets_valid:
  "length cs = 3 \<Longrightarrow>
   traces tf 1 train_bs train_sb (train_bs # cs) True \<Longrightarrow>
   traces tf 1 test_bs test_sb (test_bs # cs) False \<Longrightarrow>
   get_centralized_datasets tf provider train_bs test_bs train_sb test_sb (PyInts cs) w
     = (Inr (preprocess_fn (if train_sb \<le> 1 then 1 else train_sb) 1 train_bs
               (build_image_map tf (train_bs # cs) True) AUTOTUNE
               (create_tf_dataset_from_all_clients (fst provider)),
             preprocess_fn (if test_sb \<le> 1 then 1 else test_sb) 1 test_bs
               (build_image_map tf (test_bs # cs) False) AUTOTUNE
               (create_tf_dataset_from_all_clients (snd provider))),
        w\<lparr>loads := loads w + 1\<rparr>)"
  by (simp add: get_centralized_datasets_def load_data_def create_preprocess_fn_ok
      traces_normalized Let_def)

lemma build_image_map_plain_random_state:
  "build_image_map tf crop_shape False ex g = (fst (build_image_map tf crop_shape False ex g0), g)"
  by (simp add: build_image_map_def crop_fn_def split: sum.split)

text \<open>
  The model is not deterministic by construction: with distortion the output of the
  recording runtime changes with the random state.
\<close>

lemma build_image_map_distort_random_state:
  "fst (build_image_map symbolic_tf [24, 24, 3] True sample 0)
     \<noteq> fst (build_image_map symbolic_tf [24, 24, 3] True sample 1)"
  by (simp add: build_image_map_def crop_fn_def symbolic_tf_def feature_dtypes_def sample_def)

text \<open>
  The checks that the two assemblers make themselves come before the load: when one of
  them fails, the world is the one the call started in.
\<close>

lemma get_federated_datasets_own_checks_before_load:
  "\<not> (isinstance_Iterable crop_shape \<and> (\<exists>cs. tuple_of crop_shape = Inr cs \<and> length cs = 3)
       \<and> isinstance_bool serializable \<and> 1 \<le> train_epochs \<and> 0 \<le> test_epochs) \<Longrightarrow>
   isl (fst (get_federated_datasets tf provider train_bs test_bs train_epochs test_epochs
               train_sb test_sb crop_shape serializable w))
   \<and> snd (get_federated_datasets tf provider train_bs test_bs train_epochs test_epochs
               train_sb test_sb crop_shape serializable w) = w"
  by (cases crop_shape) (auto simp add: get_federated_datasets_def)

lemma get_centralized_datasets_checks_before_load:
  "\<not> (\<exists>cs. tuple_of crop_shape = Inr cs \<and> length cs = 3) \<Longrightarrow>
   (\<exists>m. fst (get_centralized_datasets tf provider train_bs test_bs train_sb test_sb crop_shape w)
          = Inl (ValueError m))
   \<and> snd (get_centralized_datasets tf provider train_bs test_bs train_sb test_sb crop_shape w) = w"
  by (cases crop_shape) (auto simp add: get_centralized_datasets_def)

section \<open>build_image_map without distortion\<close>

text \<open>
  C1. For every crop shape \<open>(h, w, c)\<close>, the transform built by \<open>build_image_map\<close> with
  \<open>distort = False\<close> resizes by centered crop-or-pad to target height \<open>h\<close> and target
  width \<open>w\<close>. The code reads the targets at indices 1 and 2: at the crop shape
  \<open>(24, 28, 3)\<close> the transform is the resize to height 28 and width 3, and it is not the
  resize to height 24 and width 28.
\<close>

theorem build_image_map_3tuple_targets:
  "build_image_map symbolic_tf [24, 28, 3] False sample 0
     = (Inr (PerImageStandardization (ResizeWithCropOrPad (Cast (Placeholder ''image'')) 28 3),
             Placeholder ''label''), 0)
   \<and> build_image_map symbolic_tf [24, 28, 3] False sample 0 = resized_to symbolic_tf 28 3 sample 0
   \<and> build_image_map symbolic_tf [24, 28, 3] False sample 0 \<noteq> resized_to symbolic_tf 24 28 sample 0"
  by (simp add: build_image_map_def crop_fn_def getitem_def resized_to_def symbolic_tf_def
      sample_def)

text \<open>
  C9. For a crop shape \<open>(h, w, 3)\<close> with \<open>h, w \<le> 32\<close>, the transform built with
  \<open>distort = False\<close> is deterministic: applied to the same record under any two random
  states it gives the same output, and it leaves the random state as it was.
\<close>

theorem build_image_map_plain_deterministic:
  "h \<le> 32 \<Longrightarrow> w \<le> 32 \<Longrightarrow>
   fst (build_image_map tf [h, w, 3] False ex g1) = fst (build_image_map tf [h, w, 3] False ex g2)
   \<and> snd (build_image_map tf [h, w, 3] False ex g1) = g1"
  using build_image_map_plain_random_state [of tf "[h, w, 3]" ex g1 g2] by simp

theorem build_image_map_plain_deterministic_witness:
  "(24::int) \<le> 32 \<and> (28::int) \<le> 32
   \<and> fst (build_image_map symbolic_tf [24, 28, 3] False sample 0)
       = fst (build_image_map symbolic_tf [24, 28, 3] False sample 7)
   \<and> snd (build_image_map symbolic_tf [24, 28, 3] False sample 0) = 0"
proof -
  have h: "(24::int) \<le> 32" and w: "(28::int) \<le> 32" by simp_all
  from build_image_map_plain_deterministic [OF h w, of symbolic_tf sample 0 7] h w
  show ?thesis by simp
qed

section \<open>create_preprocess_fn\<close>

text \<open>
  What \<open>create_preprocess_fn\<close> raises: its own value error for an epoch count below 1,
  before anything else; otherwise the error of the trace, when there is one.
\<close>

lemma create_preprocess_fn_nonpositive_epochs:
  "num_epochs < 1 \<Longrightarrow>
   create_preprocess_fn tf num_epochs batch_size shuffle_buffer_size crop_shape distort npc
     = Inl (ValueError ''num_epochs must be a positive integer.'')"
  by (simp add: create_preprocess_fn_def)

lemma create_preprocess_fn_trace_error:
  "1 \<le> num_epochs \<Longrightarrow>
   trace_preprocess_fn tf (if shuffle_buffer_size \<le> 1 then 1 else shuffle_buffer_size)
       num_epochs batch_size (build_image_map tf crop_shape distort) = Some e \<Longrightarrow>
   create_preprocess_fn tf num_epochs batch_size shuffle_buffer_size crop_shape distort npc = Inl e"
  by (simp add: create_preprocess_fn_def Let_def)

lemma create_preprocess_fn_batched_crop_shape:
  "create_preprocess_fn symbolic_tf 1 20 500 [20, 32, 32, 3] True AUTOTUNE
     = (Inr (preprocess_fn 500 1 20 (build_image_map symbolic_tf [20, 32, 32, 3] True) AUTOTUNE)
          :: error + (sym_dataset \<Rightarrow> sym_dataset))"
  by (simp add: create_preprocess_fn_def Let_def symbolic_trace)

lemma create_preprocess_fn_short_crop_shape:
  "create_preprocess_fn symbolic_tf 1 20 500 [32, 32] False AUTOTUNE
     = (Inl (IndexError ''tuple index out of range'')
          :: error + (sym_dataset \<Rightarrow> sym_dataset))"
  by (simp add: create_preprocess_fn_def Let_def symbolic_trace)

text \<open>
  C5. \<open>create_preprocess_fn\<close> fails with a value error exactly when \<open>num_epochs\<close> is
  less than 1, and returns a pipeline for \<open>num_epochs = 1\<close>, the other arguments being
  valid. With \<open>num_epochs = 1\<close>, the documented default crop shape \<open>CIFAR_SHAPE\<close> and
  \<open>distort_image = True\<close>, the call raises a value error: the trace runs \<open>random_crop\<close>
  with a size of three entries on the batched image, which has four dimensions.
\<close>

theorem create_preprocess_fn_default_crop_shape_distorted:
  "create_preprocess_fn symbolic_tf 1 20 500 CIFAR_SHAPE True AUTOTUNE
     = (Inl (ValueError ''Dimensions must be equal'')
          :: error + (sym_dataset \<Rightarrow> sym_dataset))"
  by (simp add: create_preprocess_fn_def Let_def CIFAR_SHAPE_def symbolic_trace)

text \<open>
  C6, as stated: the pipeline shuffles with the given buffer size, then repeats, then
  batches, then maps. At the buffer size 0 the pipeline shuffles with buffer size 1, and
  not with 0.
\<close>

theorem create_preprocess_fn_shuffle_buffer_zero:
  "run_pipeline (create_preprocess_fn symbolic_tf 1 20 0 [20, 32, 32, 3] False AUTOTUNE)
       (Source ''client'' :: sym_dataset)
     = Inr (MapDataset
              (BatchDataset (RepeatDataset (ShuffleDataset (Source ''client'') 1) 1) 20)
              (build_image_map symbolic_tf [20, 32, 32, 3] False) AUTOTUNE)
   \<and> run_pipeline (create_preprocess_fn symbolic_tf 1 20 0 [20, 32, 32, 3] False AUTOTUNE)
       (Source ''client'' :: sym_dataset)
     \<noteq> Inr (MapDataset
              (BatchDataset (RepeatDataset (ShuffleDataset (Source ''client'') 0) 1) 20)
              (build_image_map symbolic_tf [20, 32, 32, 3] False) AUTOTUNE)"
proof -
  have "traces symbolic_tf 1 20 0 [20, 32, 32, 3] False"
    by (simp add: symbolic_trace)
  then show ?thesis
    by (simp add: run_pipeline_def create_preprocess_fn_ok preprocess_fn_def)
qed

text \<open>
  C6, amended. For every valid argument combination (\<open>num_epochs \<ge> 1\<close> and arguments
  that the runtime accepts when the pipeline is traced), the pipeline applies its stages
  to the input dataset in this order: shuffle with the given buffer size, replaced by 1
  when it is at most 1; then repeat with the given epoch count; then batch with the given
  batch size; then map with the image transform built from the crop shape and the
  distortion flag.
\<close>

theorem create_preprocess_fn_stage_order:
  "1 \<le> num_epochs \<Longrightarrow>
   traces tf num_epochs batch_size shuffle_buffer_size crop_shape distort \<Longrightarrow>
   run_pipeline
       (create_preprocess_fn tf num_epochs batch_size shuffle_buffer_size crop_shape distort npc) ds
     = Inr (MapDataset
              (BatchDataset
                 (RepeatDataset
                    (ShuffleDataset ds (if shuffle_buffer_size \<le> 1 then 1 else shuffle_buffer_size))
                    num_epochs)
                 batch_size)
              (build_image_map tf crop_shape distort) npc)"
  by (simp add: run_pipeline_def create_preprocess_fn_ok preprocess_fn_def)

theorem create_preprocess_fn_stage_order_witness:
  "(1::int) \<le> 3
   \<and> traces symbolic_tf 3 20 500 [20, 32, 32, 3] True
   \<and> run_pipeline (create_preprocess_fn symbolic_tf 3 20 500 [20, 32, 32, 3] True AUTOTUNE)
       (Source ''client'' :: sym_dataset)
     = Inr (MapDataset
              (BatchDataset (RepeatDataset (ShuffleDataset (Source ''client'') 500) 3) 20)
              (build_image_map symbolic_tf [20, 32, 32, 3] True) AUTOTUNE)"
proof -
  have e: "(1::int) \<le> 3" by simp
  have t: "traces symbolic_tf 3 20 500 [20, 32, 32, 3] True"
    by (simp add: symbolic_trace)
  from create_preprocess_fn_stage_order [OF e t, where npc = AUTOTUNE
      and ds = "Source ''client'' :: sym_dataset"] e t
  show ?thesis by simp
qed

section \<open>get_federated_datasets\<close>

text \<open>
  C2, as stated: a test epoch count of 0 is accepted and does not raise. With the default
  arguments and \<open>test_client_epochs_per_round = 0\<close> the call raises a value error.
\<close>

theorem get_federated_datasets_test_epochs_zero_raises:
  "fst (get_federated_datasets symbolic_tf (''cifar_train'', ''cifar_test'') 20 100 1 0 500 1
          (PyInts [32, 32, 3]) (PyBool False) \<lparr>loads = 0\<rparr>
        :: (error + sym_clients \<times> sym_clients) \<times> world)
     = Inl (ValueError ''num_epochs must be a positive integer.'')"
proof -
  have "traces symbolic_tf 1 20 500 [20, 32, 32, 3] True"
    by (simp add: symbolic_trace)
  then show ?thesis
    by (simp add: get_federated_datasets_def load_data_def create_preprocess_fn_ok
        create_preprocess_fn_nonpositive_epochs Let_def)
qed

text \<open>
  C2, amended. With a crop shape of length 3, a Boolean \<open>serializable\<close> and pipelines
  that the runtime accepts, \<open>get_federated_datasets\<close> raises a value error when
  \<open>train_client_epochs_per_round\<close> is less than 1; when it is at least 1, the call raises
  a value error for \<open>test_client_epochs_per_round\<close> exactly when that is less than 1.
  A test epoch count of 0 is not accepted.
\<close>

theorem get_federated_datasets_epoch_bounds:
  "length cs = 3 \<Longrightarrow>
   (1 \<le> train_epochs \<longrightarrow> traces tf train_epochs train_bs train_sb (train_bs # cs) (\<not> s)) \<Longrightarrow>
   (1 \<le> train_epochs \<longrightarrow> 1 \<le> test_epochs \<longrightarrow>
      traces tf test_epochs test_bs test_sb (test_bs # cs) False) \<Longrightarrow>
   (train_epochs < 1 \<longrightarrow>
      fst (get_federated_datasets tf provider train_bs test_bs train_epochs test_epochs
             train_sb test_sb (PyInts cs) (PyBool s) w)
        = Inl (ValueError ''train_client_epochs_per_round must be a positive integer.''))
   \<and> (1 \<le> train_epochs \<longrightarrow>
        (\<exists>m. fst (get_federated_datasets tf provider train_bs test_bs train_epochs test_epochs
                     train_sb test_sb (PyInts cs) (PyBool s) w) = Inl (ValueError m))
          = (test_epochs < 1))
   \<and> (1 \<le> train_epochs \<longrightarrow>
        isl (fst (get_federated_datasets tf provider train_bs test_bs train_epochs test_epochs
                    train_sb test_sb (PyInts cs) (PyBool s) w))
          = (test_epochs < 1))"
proof (intro conjI impI)
  assume len: "length cs = 3" and tr: "train_epochs < 1"
  then show "fst (get_federated_datasets tf provider train_bs test_bs train_epochs test_epochs
               train_sb test_sb (PyInts cs) (PyBool s) w)
      = Inl (ValueError ''train_client_epochs_per_round must be a positive integer.'')"
    by (simp add: get_federated_datasets_def)
next
  assume len: "length cs = 3" and tr: "1 \<le> train_epochs"
    and a: "1 \<le> train_epochs \<longrightarrow> traces tf train_epochs train_bs train_sb (train_bs # cs) (\<not> s)"
    and b: "1 \<le> train_epochs \<longrightarrow> 1 \<le> test_epochs \<longrightarrow>
              traces tf test_epochs test_bs test_sb (test_bs # cs) False"
  show "(\<exists>m. fst (get_federated_datasets tf provider train_bs test_bs train_epochs test_epochs
                   train_sb test_sb (PyInts cs) (PyBool s) w) = Inl (ValueError m))
          = (test_epochs < 1)"
  proof (cases "1 \<le> test_epochs")
    case True
    with len tr a b show ?thesis by (simp add: get_federated_datasets_valid)
  next
    case False
    with len tr a show ?thesis
      by (simp add: get_federated_datasets_def load_data_def create_preprocess_fn_ok
          create_preprocess_fn_nonpositive_epochs traces_normalized Let_def)
  qed
next
  assume len: "length cs = 3" and tr: "1 \<le> train_epochs"
    and a: "1 \<le> train_epochs \<longrightarrow> traces tf train_epochs train_bs train_sb (train_bs # cs) (\<not> s)"
    and b: "1 \<le> train_epochs \<longrightarrow> 1 \<le> test_epochs \<longrightarrow>
              traces tf test_epochs test_bs test_sb (test_bs # cs) False"
  show "isl (fst (get_federated_datasets tf provider train_bs test_bs train_epochs test_epochs
                    train_sb test_sb (PyInts cs) (PyBool s) w))
          = (test_epochs < 1)"
  proof (cases "1 \<le> test_epochs")
    case True
    with len tr a b show ?thesis by (simp add: get_federated_datasets_valid)
  next
    case False
    with len tr a show ?thesis
      by (simp add: get_federated_datasets_def load_data_def create_preprocess_fn_ok
          create_preprocess_fn_nonpositive_epochs traces_normalized Let_def)
  qed
qed

theorem get_federated_datasets_epoch_bounds_witness:
  "length [32, 32, 3 :: int] = 3
   \<and> traces symbolic_tf 1 20 500 [20, 32, 32, 3] True
   \<and> traces symbolic_tf 1 100 1 [100, 32, 32, 3] False
   \<and> (0::int) < 1
   \<and> fst (get_federated_datasets symbolic_tf (''cifar_train'', ''cifar_test'') 20 100 0 1 500 1
            (PyInts [32, 32, 3]) (PyBool False) \<lparr>loads = 0\<rparr>
          :: (error + sym_clients \<times> sym_clients) \<times> world)
       = Inl (ValueError ''train_client_epochs_per_round must be a positive integer.'')
   \<and> (1::int) \<le> 1
   \<and> \<not> isl (fst (get_federated_datasets symbolic_tf (''cifar_train'', ''cifar_test'') 20 100 1 1
                   500 1 (PyInts [32, 32, 3]) (PyBool False) \<lparr>loads = 0\<rparr>
                 :: (error + sym_clients \<times> sym_clients) \<times> world))
   \<and> isl (fst (get_federated_datasets symbolic_tf (''cifar_train'', ''cifar_test'') 20 100 1 0
                 500 1 (PyInts [32, 32, 3]) (PyBool False) \<lparr>loads = 0\<rparr>
               :: (error + sym_clients \<times> sym_clients) \<times> world))"
proof -
  have len: "length [32, 32, 3 :: int] = 3" by simp
  have tr: "traces symbolic_tf 1 20 500 [20, 32, 32, 3] True"
    and te: "traces symbolic_tf 1 100 1 [100, 32, 32, 3] False"
    by (simp_all add: symbolic_trace)
  have train_0:
    "fst (get_federated_datasets symbolic_tf (''cifar_train'', ''cifar_test'') 20 100 0 1 500 1
            (PyInts [32, 32, 3]) (PyBool False) \<lparr>loads = 0\<rparr>
          :: (error + sym_clients \<times> sym_clients) \<times> world)
       = Inl (ValueError ''train_client_epochs_per_round must be a positive integer.'')"
    by (rule get_federated_datasets_epoch_bounds [OF len, THEN conjunct1, THEN mp]) simp_all
  have test_1:
    "isl (fst (get_federated_datasets symbolic_tf (''cifar_train'', ''cifar_test'') 20 100 1 1
                 500 1 (PyInts [32, 32, 3]) (PyBool False) \<lparr>loads = 0\<rparr>
               :: (error + sym_clients \<times> sym_clients) \<times> world))
       = ((1::int) < 1)"
    by (rule get_federated_datasets_epoch_bounds [OF len, THEN conjunct2, THEN conjunct2,
          THEN mp]) (simp_all add: tr te)
  have test_0:
    "isl (fst (get_federated_datasets symbolic_tf (''cifar_train'', ''cifar_test'') 20 100 1 0
                 500 1 (PyInts [32, 32, 3]) (PyBool False) \<lparr>loads = 0\<rparr>
               :: (error + sym_clients \<times> sym_clients) \<times> world))
       = ((0::int) < 1)"
    by (rule get_federated_datasets_epoch_bounds [OF len, THEN conjunct2, THEN conjunct2,
          THEN mp]) (simp_all add: tr)
  from tr te train_0 test_1 test_0 show ?thesis by simp
qed

text \<open>
  C3. For valid arguments (a crop shape of length 3, a Boolean \<open>serializable\<close>, epoch
  counts of at least 1, pipelines that the runtime accepts), the train pipeline is the one
  \<open>create_preprocess_fn\<close> builds with \<open>distort_image = (\<not> serializable)\<close>, and the test
  pipeline is the one it builds with \<open>distort_image = False\<close>.
\<close>

theorem get_federated_datasets_distortion:
  "length cs = 3 \<Longrightarrow> 1 \<le> train_epochs \<Longrightarrow> 1 \<le> test_epochs \<Longrightarrow>
   traces tf train_epochs train_bs train_sb (train_bs # cs) (\<not> s) \<Longrightarrow>
   traces tf test_epochs test_bs test_sb (test_bs # cs) False \<Longrightarrow>
   \<exists>train_fn test_fn.
     create_preprocess_fn tf train_epochs train_bs (if train_sb \<le> 1 then 1 else train_sb)
         (train_bs # cs) (\<not> s) AUTOTUNE = Inr train_fn
     \<and> create_preprocess_fn tf test_epochs test_bs (if test_sb \<le> 1 then 1 else test_sb)
         (test_bs # cs) False AUTOTUNE = Inr test_fn
     \<and> fst (get_federated_datasets tf provider train_bs test_bs train_epochs test_epochs
              train_sb test_sb (PyInts cs) (PyBool s) w)
         = Inr (preprocess (fst provider) train_fn, preprocess (snd provider) test_fn)"
  by (simp add: get_federated_datasets_valid create_preprocess_fn_ok traces_normalized)

theorem get_federated_datasets_distortion_witness:
  "length [32, 32, 3 :: int] = 3 \<and> (1::int) \<le> 1
   \<and> traces symbolic_tf 1 20 500 [20, 32, 32, 3] False
   \<and> traces symbolic_tf 1 20 500 [20, 32, 32, 3] True
   \<and> traces symbolic_tf 1 100 1 [100, 32, 32, 3] False
   \<and> fst (get_federated_datasets symbolic_tf (''cifar_train'', ''cifar_test'') 20 100 1 1 500 1
            (PyInts [32, 32, 3]) (PyBool True) \<lparr>loads = 0\<rparr>
          :: (error + sym_clients \<times> sym_clients) \<times> world)
       = Inr (preprocess ''cifar_train''
                (preprocess_fn 500 1 20 (build_image_map symbolic_tf [20, 32, 32, 3] False)
                   AUTOTUNE),
              preprocess ''cifar_test''
                (preprocess_fn 1 1 100 (build_image_map symbolic_tf [100, 32, 32, 3] False)
                   AUTOTUNE))
   \<and> fst (get_federated_datasets symbolic_tf (''cifar_train'', ''cifar_test'') 20 100 1 1 500 1
            (PyInts [32, 32, 3]) (PyBool False) \<lparr>loads = 0\<rparr>
          :: (error + sym_clients \<times> sym_clients) \<times> world)
       = Inr (preprocess ''cifar_train''
                (preprocess_fn 500 1 20 (build_image_map symbolic_tf [20, 32, 32, 3] True)
                   AUTOTUNE),
              preprocess ''cifar_test''
                (preprocess_fn 1 1 100 (build_image_map symbolic_tf [100, 32, 32, 3] False)
                   AUTOTUNE))"
proof -
  have len: "length [32, 32, 3 :: int] = 3" and e: "(1::int) \<le> 1" by simp_all
  have plain: "traces symbolic_tf 1 20 500 (20 # [32, 32, 3]) (\<not> True)"
    and distorted: "traces symbolic_tf 1 20 500 (20 # [32, 32, 3]) (\<not> False)"
    and test: "traces symbolic_tf 1 100 1 (100 # [32, 32, 3]) False"
    by (simp_all add: symbolic_trace)
  have "\<exists>train_fn test_fn.
     create_preprocess_fn symbolic_tf 1 20 (if (500::int) \<le> 1 then 1 else 500)
         (20 # [32, 32, 3]) (\<not> True) AUTOTUNE = Inr train_fn
     \<and> create_preprocess_fn symbolic_tf 1 100 (if (1::int) \<le> 1 then 1 else 1)
         (100 # [32, 32, 3]) False AUTOTUNE = Inr test_fn
     \<and> fst (get_federated_datasets symbolic_tf (''cifar_train'', ''cifar_test'') 20 100 1 1
              500 1 (PyInts [32, 32, 3]) (PyBool True) \<lparr>loads = 0\<rparr>
            :: (error + sym_clients \<times> sym_clients) \<times> world)
         = Inr (preprocess (fst (''cifar_train'', ''cifar_test'')) train_fn,
                preprocess (snd (''cifar_train'', ''cifar_test'')) test_fn)"
    by (rule get_federated_datasets_distortion [OF len e e plain test])
  with plain test have serializable:
    "fst (get_federated_datasets symbolic_tf (''cifar_train'', ''cifar_test'') 20 100 1 1 500 1
            (PyInts [32, 32, 3]) (PyBool True) \<lparr>loads = 0\<rparr>
          :: (error + sym_clients \<times> sym_clients) \<times> world)
       = Inr (preprocess ''cifar_train''
                (preprocess_fn 500 1 20 (build_image_map symbolic_tf [20, 32, 32, 3] False)
                   AUTOTUNE),
              preprocess ''cifar_test''
                (preprocess_fn 1 1 100 (build_image_map symbolic_tf [100, 32, 32, 3] False)
                   AUTOTUNE))"
    by (auto simp add: create_preprocess_fn_ok)
  have "\<exists>train_fn test_fn.
     create_preprocess_fn symbolic_tf 1 20 (if (500::int) \<le> 1 then 1 else 500)
         (20 # [32, 32, 3]) (\<not> False) AUTOTUNE = Inr train_fn
     \<and> create_preprocess_fn symbolic_tf 1 100 (if (1::int) \<le> 1 then 1 else 1)
         (100 # [32, 32, 3]) False AUTOTUNE = Inr test_fn
     \<and> fst (get_federated_datasets symbolic_tf (''cifar_train'', ''cifar_test'') 20 100 1 1
              500 1 (PyInts [32, 32, 3]) (PyBool False) \<lparr>loads = 0\<rparr>
            :: (error + sym_clients \<times> sym_clients) \<times> world)
         = Inr (preprocess (fst (''cifar_train'', ''cifar_test'')) train_fn,
                preprocess (snd (''cifar_train'', ''cifar_test'')) test_fn)"
    by (rule get_federated_datasets_distortion [OF len e e distorted test])
  with distorted test have not_serializable:
    "fst (get_federated_datasets symbolic_tf (''cifar_train'', ''cifar_test'') 20 100 1 1 500 1
            (PyInts [32, 32, 3]) (PyBool False) \<lparr>loads = 0\<rparr>
          :: (error + sym_clients \<times> sym_clients) \<times> world)
       = Inr (preprocess ''cifar_train''
                (preprocess_fn 500 1 20 (build_image_map symbolic_tf [20, 32, 32, 3] True)
                   AUTOTUNE),
              preprocess ''cifar_test''
                (preprocess_fn 1 1 100 (build_image_map symbolic_tf [100, 32, 32, 3] False)
                   AUTOTUNE))"
    by (auto simp add: create_preprocess_fn_ok)
  from len e plain distorted test serializable not_serializable show ?thesis by simp
qed

text \<open>
  C8. Every argument-validation error of the two assemblers is raised before the load.
  With \<open>test_client_epochs_per_round = 0\<close> and the other arguments at their defaults,
  \<open>get_federated_datasets\<close> triggers the load and then raises the value error for the
  epoch count.
\<close>

theorem get_federated_datasets_test_epochs_zero_after_load:
  "get_federated_datasets symbolic_tf (''cifar_train'', ''cifar_test'') 20 100 1 0 500 1
       (PyInts [32, 32, 3]) (PyBool False) \<lparr>loads = 0\<rparr>
     = ((Inl (ValueError ''num_epochs must be a positive integer.''), \<lparr>loads = 1\<rparr>)
          :: (error + sym_clients \<times> sym_clients) \<times> world)"
proof -
  have "traces symbolic_tf 1 20 500 [20, 32, 32, 3] True"
    by (simp add: symbolic_trace)
  then show ?thesis
    by (simp add: get_federated_datasets_def load_data_def create_preprocess_fn_ok
        create_preprocess_fn_nonpositive_epochs Let_def)
qed

section \<open>get_centralized_datasets\<close>

text \<open>
  C4. For valid arguments (a crop shape of length 3, pipelines that the runtime accepts),
  both pipelines of \<open>get_centralized_datasets\<close> are the ones \<open>create_preprocess_fn\<close>
  builds with \<open>num_epochs = 1\<close>: the train pipeline with \<open>distort_image = True\<close>, the test
  pipeline with \<open>distort_image = False\<close>.
\<close>

theorem get_centralized_datasets_pipelines:
  "length cs = 3 \<Longrightarrow>
   traces tf 1 train_bs train_sb (train_bs # cs) True \<Longrightarrow>
   traces tf 1 test_bs test_sb (test_bs # cs) False \<Longrightarrow>
   \<exists>train_fn test_fn.
     create_preprocess_fn tf 1 train_bs (if train_sb \<le> 1 then 1 else train_sb)
         (train_bs # cs) True AUTOTUNE = Inr train_fn
     \<and> create_preprocess_fn tf 1 test_bs (if test_sb \<le> 1 then 1 else test_sb)
         (test_bs # cs) False AUTOTUNE = Inr test_fn
     \<and> fst (get_centralized_datasets tf provider train_bs test_bs train_sb test_sb (PyInts cs) w)
         = Inr (train_fn (create_tf_dataset_from_all_clients (fst provider)),
                test_fn (create_tf_dataset_from_all_clients (snd provider)))"
  by (simp add: get_centralized_datasets_valid create_preprocess_fn_ok traces_normalized)

theorem get_centralized_datasets_pipelines_witness:
  "length [32, 32, 3 :: int] = 3
   \<and> traces symbolic_tf 1 20 10000 [20, 32, 32, 3] True
   \<and> traces symbolic_tf 1 100 1 [100, 32, 32, 3] False
   \<and> fst (get_centralized_datasets symbolic_tf (''cifar_train'', ''cifar_test'') 20 100 10000 1
            (PyInts [32, 32, 3]) \<lparr>loads = 0\<rparr>
          :: (error + sym_pooled \<times> sym_pooled) \<times> world)
       = Inr (MapDataset
                (BatchDataset
                   (RepeatDataset (ShuffleDataset (Source (AllClients ''cifar_train'')) 10000) 1)
                   20)
                (build_image_map symbolic_tf [20, 32, 32, 3] True) AUTOTUNE,
              MapDataset
                (BatchDataset
                   (RepeatDataset (ShuffleDataset (Source (AllClients ''cifar_test'')) 1) 1)
                   100)
                (build_image_map symbolic_tf [100, 32, 32, 3] False) AUTOTUNE)"
proof -
  have len: "length [32, 32, 3 :: int] = 3" by simp
  have train: "traces symbolic_tf 1 20 10000 (20 # [32, 32, 3]) True"
    and test: "traces symbolic_tf 1 100 1 (100 # [32, 32, 3]) False"
    by (simp_all add: symbolic_trace)
  have "\<exists>train_fn test_fn.
     create_preprocess_fn symbolic_tf 1 20 (if (10000::int) \<le> 1 then 1 else 10000)
         (20 # [32, 32, 3]) True AUTOTUNE = Inr train_fn
     \<and> create_preprocess_fn symbolic_tf 1 100 (if (1::int) \<le> 1 then 1 else 1)
         (100 # [32, 32, 3]) False AUTOTUNE = Inr test_fn
     \<and> fst (get_centralized_datasets symbolic_tf (''cifar_train'', ''cifar_test'') 20 100
              10000 1 (PyInts [32, 32, 3]) \<lparr>loads = 0\<rparr>
            :: (error + sym_pooled \<times> sym_pooled) \<times> world)
         = Inr (train_fn (create_tf_dataset_from_all_clients (fst (''cifar_train'', ''cifar_test''))),
                test_fn (create_tf_dataset_from_all_clients (snd (''cifar_train'', ''cifar_test''))))"
    by (rule get_centralized_datasets_pipelines [OF len train test])
  with len train test show ?thesis
    by (auto simp add: create_preprocess_fn_ok preprocess_fn_def
        create_tf_dataset_from_all_clients_def)
qed

section \<open>The shuffle buffer and the crop shape across the module\<close>

text \<open>
  C7. In \<open>create_preprocess_fn\<close>, \<open>get_federated_datasets\<close> and
  \<open>get_centralized_datasets\<close>, a shuffle buffer size of at most 1 gives the result that the
  size 1 gives, error or pipeline alike, so the normalization raises nothing of its own.
  For valid arguments, the pipeline that each of the three builds for such a size
  shuffles with buffer size exactly 1.
\<close>

theorem shuffle_buffer_size_normalized:
  "sb \<le> 1 \<Longrightarrow>
   create_preprocess_fn tf num_epochs batch_size sb crop_shape distort npc
     = create_preprocess_fn tf num_epochs batch_size 1 crop_shape distort npc
   \<and> get_federated_datasets tf provider train_bs test_bs train_epochs test_epochs
         sb test_sb crop serializable w
     = get_federated_datasets tf provider train_bs test_bs train_epochs test_epochs
         1 test_sb crop serializable w
   \<and> get_federated_datasets tf provider train_bs test_bs train_epochs test_epochs
         train_sb sb crop serializable w
     = get_federated_datasets tf provider train_bs test_bs train_epochs test_epochs
         train_sb 1 crop serializable w
   \<and> get_centralized_datasets tf cprovider ctrain_bs ctest_bs sb ctest_sb ccrop cw
     = get_centralized_datasets tf cprovider ctrain_bs ctest_bs 1 ctest_sb ccrop cw
   \<and> get_centralized_datasets tf cprovider ctrain_bs ctest_bs ctrain_sb sb ccrop cw
     = get_centralized_datasets tf cprovider ctrain_bs ctest_bs ctrain_sb 1 ccrop cw
   \<and> (1 \<le> num_epochs \<longrightarrow> traces tf num_epochs batch_size sb crop_shape distort \<longrightarrow>
        run_pipeline (create_preprocess_fn tf num_epochs batch_size sb crop_shape distort npc) ds
          = Inr (MapDataset
                   (BatchDataset (RepeatDataset (ShuffleDataset ds 1) num_epochs) batch_size)
                   (build_image_map tf crop_shape distort) npc))
   \<and> (length cs = 3 \<longrightarrow> 1 \<le> train_epochs \<longrightarrow> 1 \<le> test_epochs \<longrightarrow>
        traces tf train_epochs train_bs sb (train_bs # cs) (\<not> s) \<longrightarrow>
        traces tf test_epochs test_bs test_sb (test_bs # cs) False \<longrightarrow>
        fst (get_federated_datasets tf provider train_bs test_bs train_epochs test_epochs
               sb test_sb (PyInts cs) (PyBool s) w)
          = Inr (preprocess (fst provider)
                   (preprocess_fn 1 train_epochs train_bs
                      (build_image_map tf (train_bs # cs) (\<not> s)) AUTOTUNE),
                 preprocess (snd provider)
                   (preprocess_fn (if test_sb \<le> 1 then 1 else test_sb) test_epochs test_bs
                      (build_image_map tf (test_bs # cs) False) AUTOTUNE)))
   \<and> (length cs = 3 \<longrightarrow> 1 \<le> train_epochs \<longrightarrow> 1 \<le> test_epochs \<longrightarrow>
        traces tf train_epochs train_bs train_sb (train_bs # cs) (\<not> s) \<longrightarrow>
        traces tf test_epochs test_bs sb (test_bs # cs) False \<longrightarrow>
        fst (get_federated_datasets tf provider train_bs test_bs train_epochs test_epochs
               train_sb sb (PyInts cs) (PyBool s) w)
          = Inr (preprocess (fst provider)
                   (preprocess_fn (if train_sb \<le> 1 then 1 else train_sb) train_epochs train_bs
                      (build_image_map tf (train_bs # cs) (\<not> s)) AUTOTUNE),
                 preprocess (snd provider)
                   (preprocess_fn 1 test_epochs test_bs
                      (build_image_map tf (test_bs # cs) False) AUTOTUNE)))
   \<and> (length cs = 3 \<longrightarrow>
        traces tf 1 ctrain_bs sb (ctrain_bs # cs) True \<longrightarrow>
        traces tf 1 ctest_bs ctest_sb (ctest_bs # cs) False \<longrightarrow>
        fst (get_centralized_datasets tf cprovider ctrain_bs ctest_bs sb ctest_sb (PyInts cs) cw)
          = Inr (preprocess_fn 1 1 ctrain_bs (build_image_map tf (ctrain_bs # cs) True) AUTOTUNE
                   (create_tf_dataset_from_all_clients (fst cprovider)),
                 preprocess_fn (if ctest_sb \<le> 1 then 1 else ctest_sb) 1 ctest_bs
                   (build_image_map tf (ctest_bs # cs) False) AUTOTUNE
                   (create_tf_dataset_from_all_clients (snd cprovider))))
   \<and> (length cs = 3 \<longrightarrow>
        traces tf 1 ctrain_bs ctrain_sb (ctrain_bs # cs) True \<longrightarrow>
        traces tf 1 ctest_bs sb (ctest_bs # cs) False \<longrightarrow>
        fst (get_centralized_datasets tf cprovider ctrain_bs ctest_bs ctrain_sb sb (PyInts cs) cw)
          = Inr (preprocess_fn (if ctrain_sb \<le> 1 then 1 else ctrain_sb) 1 ctrain_bs
                   (build_image_map tf (ctrain_bs # cs) True) AUTOTUNE
                   (create_tf_dataset_from_all_clients (fst cprovider)),
                 preprocess_fn 1 1 ctest_bs (build_image_map tf (ctest_bs # cs) False) AUTOTUNE
                   (create_tf_dataset_from_all_clients (snd cprovider))))"
proof (intro conjI impI)
  assume sb: "sb \<le> 1"
  show "create_preprocess_fn tf num_epochs batch_size sb crop_shape distort npc
     = create_preprocess_fn tf num_epochs batch_size 1 crop_shape distort npc"
    using sb by (simp add: create_preprocess_fn_def Let_def)
  show "get_federated_datasets tf provider train_bs test_bs train_epochs test_epochs
         sb test_sb crop serializable w
     = get_federated_datasets tf provider train_bs test_bs train_epochs test_epochs
         1 test_sb crop serializable w"
    using sb by (simp add: get_federated_datasets_def Let_def cong: if_cong sum.case_cong)
  show "get_federated_datasets tf provider train_bs test_bs train_epochs test_epochs
         train_sb sb crop serializable w
     = get_federated_datasets tf provider train_bs test_bs train_epochs test_epochs
         train_sb 1 crop serializable w"
    using sb by (simp add: get_federated_datasets_def Let_def cong: if_cong sum.case_cong)
  show "get_centralized_datasets tf cprovider ctrain_bs ctest_bs sb ctest_sb ccrop cw
     = get_centralized_datasets tf cprovider ctrain_bs ctest_bs 1 ctest_sb ccrop cw"
    using sb by (simp add: get_centralized_datasets_def Let_def cong: if_cong sum.case_cong)
  show "get_centralized_datasets tf cprovider ctrain_bs ctest_bs ctrain_sb sb ccrop cw
     = get_centralized_datasets tf cprovider ctrain_bs ctest_bs ctrain_sb 1 ccrop cw"
    using sb by (simp add: get_centralized_datasets_def Let_def cong: if_cong sum.case_cong)
next
  assume "sb \<le> 1" "1 \<le> num_epochs" "traces tf num_epochs batch_size sb crop_shape distort"
  then show "run_pipeline
       (create_preprocess_fn tf num_epochs batch_size sb crop_shape distort npc) ds
     = Inr (MapDataset
              (BatchDataset (RepeatDataset (ShuffleDataset ds 1) num_epochs) batch_size)
              (build_image_map tf crop_shape distort) npc)"
    by (simp add: run_pipeline_def create_preprocess_fn_ok preprocess_fn_def)
next
  assume "sb \<le> 1" "length cs = 3" "1 \<le> train_epochs" "1 \<le> test_epochs"
    "traces tf train_epochs train_bs sb (train_bs # cs) (\<not> s)"
    "traces tf test_epochs test_bs test_sb (test_bs # cs) False"
  then show "fst (get_federated_datasets tf provider train_bs test_bs train_epochs test_epochs
               sb test_sb (PyInts cs) (PyBool s) w)
          = Inr (preprocess (fst provider)
                   (preprocess_fn 1 train_epochs train_bs
                      (build_image_map tf (train_bs # cs) (\<not> s)) AUTOTUNE),
                 preprocess (snd provider)
                   (preprocess_fn (if test_sb \<le> 1 then 1 else test_sb) test_epochs test_bs
                      (build_image_map tf (test_bs # cs) False) AUTOTUNE))"
    by (simp add: get_federated_datasets_valid)
next
  assume "sb \<le> 1" "length cs = 3" "1 \<le> train_epochs" "1 \<le> test_epochs"
    "traces tf train_epochs train_bs train_sb (train_bs # cs) (\<not> s)"
    "traces tf test_epochs test_bs sb (test_bs # cs) False"
  then show "fst (get_federated_datasets tf provider train_bs test_bs train_epochs test_epochs
               train_sb sb (PyInts cs) (PyBool s) w)
          = Inr (preprocess (fst provider)
                   (preprocess_fn (if train_sb \<le> 1 then 1 else train_sb) train_epochs train_bs
                      (build_image_map tf (train_bs # cs) (\<not> s)) AUTOTUNE),
                 preprocess (snd provider)
                   (preprocess_fn 1 test_epochs test_bs
                      (build_image_map tf (test_bs # cs) False) AUTOTUNE))"
    by (simp add: get_federated_datasets_valid)
next
  assume "sb \<le> 1" "length cs = 3"
    "traces tf 1 ctrain_bs sb (ctrain_bs # cs) True"
    "traces tf 1 ctest_bs ctest_sb (ctest_bs # cs) False"
  then show "fst (get_centralized_datasets tf cprovider ctrain_bs ctest_bs sb ctest_sb
                    (PyInts cs) cw)
          = Inr (preprocess_fn 1 1 ctrain_bs (build_image_map tf (ctrain_bs # cs) True) AUTOTUNE
                   (create_tf_dataset_from_all_clients (fst cprovider)),
                 preprocess_fn (if ctest_sb \<le> 1 then 1 else ctest_sb) 1 ctest_bs
                   (build_image_map tf (ctest_bs # cs) False) AUTOTUNE
                   (create_tf_dataset_from_all_clients (snd cprovider)))"
    by (simp add: get_centralized_datasets_valid)
next
  assume "sb \<le> 1" "length cs = 3"
    "traces tf 1 ctrain_bs ctrain_sb (ctrain_bs # cs) True"
    "traces tf 1 ctest_bs sb (ctest_bs # cs) False"
  then show "fst (get_centralized_datasets tf cprovider ctrain_bs ctest_bs ctrain_sb sb
                    (PyInts cs) cw)
          = Inr (preprocess_fn (if ctrain_sb \<le> 1 then 1 else ctrain_sb) 1 ctrain_bs
                   (build_image_map tf (ctrain_bs # cs) True) AUTOTUNE
                   (create_tf_dataset_from_all_clients (fst cprovider)),
                 preprocess_fn 1 1 ctest_bs (build_image_map tf (ctest_bs # cs) False) AUTOTUNE
                   (create_tf_dataset_from_all_clients (snd cprovider)))"
    by (simp add: get_centralized_datasets_valid)
qed

theorem shuffle_buffer_size_normalized_witness:
  "(0::int) \<le> 1
   \<and> create_preprocess_fn symbolic_tf 1 20 0 [20, 32, 32, 3] False AUTOTUNE
       = (create_preprocess_fn symbolic_tf 1 20 1 [20, 32, 32, 3] False AUTOTUNE
            :: error + (sym_dataset \<Rightarrow> sym_dataset))
   \<and> get_federated_datasets symbolic_tf (''cifar_train'', ''cifar_test'') 20 100 1 1 0 0
            (PyInts [32, 32, 3]) (PyBool False) \<lparr>loads = 0\<rparr>
       = (get_federated_datasets symbolic_tf (''cifar_train'', ''cifar_test'') 20 100 1 1 1 1
            (PyInts [32, 32, 3]) (PyBool False) \<lparr>loads = 0\<rparr>
            :: (error + sym_clients \<times> sym_clients) \<times> world)
   \<and> get_centralized_datasets symbolic_tf (''cifar_train'', ''cifar_test'') 20 100 0 0
            (PyInts [32, 32, 3]) \<lparr>loads = 0\<rparr>
       = (get_centralized_datasets symbolic_tf (''cifar_train'', ''cifar_test'') 20 100 1 1
            (PyInts [32, 32, 3]) \<lparr>loads = 0\<rparr>
            :: (error + sym_pooled \<times> sym_pooled) \<times> world)
   \<and> traces symbolic_tf 1 20 0 [20, 32, 32, 3] False
   \<and> run_pipeline (create_preprocess_fn symbolic_tf 1 20 0 [20, 32, 32, 3] False AUTOTUNE)
         (Source ''client'' :: sym_dataset)
       = Inr (MapDataset
                (BatchDataset (RepeatDataset (ShuffleDataset (Source ''client'') 1) 1) 20)
                (build_image_map symbolic_tf [20, 32, 32, 3] False) AUTOTUNE)
   \<and> length [32, 32, 3 :: int] = 3
   \<and> traces symbolic_tf 1 20 0 [20, 32, 32, 3] True
   \<and> traces symbolic_tf 1 100 0 [100, 32, 32, 3] False
   \<and> fst (get_federated_datasets symbolic_tf (''cifar_train'', ''cifar_test'') 20 100 1 1 0 0
            (PyInts [32, 32, 3]) (PyBool False) \<lparr>loads = 0\<rparr>
          :: (error + sym_clients \<times> sym_clients) \<times> world)
       = Inr (preprocess ''cifar_train''
                (preprocess_fn 1 1 20 (build_image_map symbolic_tf [20, 32, 32, 3] True)
                   AUTOTUNE),
              preprocess ''cifar_test''
                (preprocess_fn 1 1 100 (build_image_map symbolic_tf [100, 32, 32, 3] False)
                   AUTOTUNE))
   \<and> fst (get_centralized_datasets symbolic_tf (''cifar_train'', ''cifar_test'') 20 100 0 0
            (PyInts [32, 32, 3]) \<lparr>loads = 0\<rparr>
          :: (error + sym_pooled \<times> sym_pooled) \<times> world)
       = Inr (MapDataset
                (BatchDataset
                   (RepeatDataset (ShuffleDataset (Source (AllClients ''cifar_train'')) 1) 1) 20)
                (build_image_map symbolic_tf [20, 32, 32, 3] True) AUTOTUNE,
              MapDataset
                (BatchDataset
                   (RepeatDataset (ShuffleDataset (Source (AllClients ''cifar_test'')) 1) 1) 100)
                (build_image_map symbolic_tf [100, 32, 32, 3] False) AUTOTUNE)"
proof -
  have z: "(0::int) \<le> 1" and e: "(1::int) \<le> 1" and len: "length [32, 32, 3 :: int] = 3"
    by simp_all
  have plain: "traces symbolic_tf 1 20 0 [20, 32, 32, 3] False"
    and train: "traces symbolic_tf 1 20 0 (20 # [32, 32, 3]) (\<not> False)"
    and ctrain: "traces symbolic_tf 1 20 0 (20 # [32, 32, 3]) True"
    and test: "traces symbolic_tf 1 100 0 (100 # [32, 32, 3]) False"
    by (simp_all add: symbolic_trace)
  note n = shuffle_buffer_size_normalized [OF z]
  have a: "create_preprocess_fn symbolic_tf 1 20 0 [20, 32, 32, 3] False AUTOTUNE
       = (create_preprocess_fn symbolic_tf 1 20 1 [20, 32, 32, 3] False AUTOTUNE
            :: error + (sym_dataset \<Rightarrow> sym_dataset))"
    by (rule n [THEN conjunct1])
  have b: "get_federated_datasets symbolic_tf (''cifar_train'', ''cifar_test'') 20 100 1 1 0 0
            (PyInts [32, 32, 3]) (PyBool False) \<lparr>loads = 0\<rparr>
       = (get_federated_datasets symbolic_tf (''cifar_train'', ''cifar_test'') 20 100 1 1 1 0
            (PyInts [32, 32, 3]) (PyBool False) \<lparr>loads = 0\<rparr>
            :: (error + sym_clients \<times> sym_clients) \<times> world)"
    by (rule n [THEN conjunct2, THEN conjunct1])
  have c: "get_federated_datasets symbolic_tf (''cifar_train'', ''cifar_test'') 20 100 1 1 1 0
            (PyInts [32, 32, 3]) (PyBool False) \<lparr>loads = 0\<rparr>
       = (get_federated_datasets symbolic_tf (''cifar_train'', ''cifar_test'') 20 100 1 1 1 1
            (PyInts [32, 32, 3]) (PyBool False) \<lparr>loads = 0\<rparr>
            :: (error + sym_clients \<times> sym_clients) \<times> world)"
    by (rule n [THEN conjunct2, THEN conjunct2, THEN conjunct1])
  have d: "get_centralized_datasets symbolic_tf (''cifar_train'', ''cifar_test'') 20 100 0 0
            (PyInts [32, 32, 3]) \<lparr>loads = 0\<rparr>
       = (get_centralized_datasets symbolic_tf (''cifar_train'', ''cifar_test'') 20 100 1 0
            (PyInts [32, 32, 3]) \<lparr>loads = 0\<rparr>
            :: (error + sym_pooled \<times> sym_pooled) \<times> world)"
    by (rule n [THEN conjunct2, THEN conjunct2, THEN conjunct2, THEN conjunct1])
  have f: "get_centralized_datasets symbolic_tf (''cifar_train'', ''cifar_test'') 20 100 1 0
            (PyInts [32, 32, 3]) \<lparr>loads = 0\<rparr>
       = (get_centralized_datasets symbolic_tf (''cifar_train'', ''cifar_test'') 20 100 1 1
            (PyInts [32, 32, 3]) \<lparr>loads = 0\<rparr>
            :: (error + sym_pooled \<times> sym_pooled) \<times> world)"
    by (rule n [THEN conjunct2, THEN conjunct2, THEN conjunct2, THEN conjunct2, THEN conjunct1])
  have g: "run_pipeline (create_preprocess_fn symbolic_tf 1 20 0 [20, 32, 32, 3] False AUTOTUNE)
         (Source ''client'' :: sym_dataset)
       = Inr (MapDataset
                (BatchDataset (RepeatDataset (ShuffleDataset (Source ''client'') 1) 1) 20)
                (build_image_map symbolic_tf [20, 32, 32, 3] False) AUTOTUNE)"
    by (rule n [THEN conjunct2, THEN conjunct2, THEN conjunct2, THEN conjunct2, THEN conjunct2, THEN conjunct1, THEN mp, THEN mp, OF e plain])
  have h: "fst (get_federated_datasets symbolic_tf (''cifar_train'', ''cifar_test'') 20 100 1 1 0 0
            (PyInts [32, 32, 3]) (PyBool False) \<lparr>loads = 0\<rparr>
          :: (error + sym_clients \<times> sym_clients) \<times> world)
       = Inr (preprocess (fst (''cifar_train'', ''cifar_test''))
                (preprocess_fn 1 1 20 (build_image_map symbolic_tf (20 # [32, 32, 3]) (\<not> False))
                   AUTOTUNE),
              preprocess (snd (''cifar_train'', ''cifar_test''))
                (preprocess_fn (if (0::int) \<le> 1 then 1 else 0) 1 100
                   (build_image_map symbolic_tf (100 # [32, 32, 3]) False) AUTOTUNE))"
    by (rule n [THEN conjunct2, THEN conjunct2, THEN conjunct2, THEN conjunct2, THEN conjunct2, THEN conjunct2, THEN conjunct1, THEN mp, THEN mp, THEN mp, THEN mp, THEN mp,
          OF len e e train test])
  have i: "fst (get_centralized_datasets symbolic_tf (''cifar_train'', ''cifar_test'') 20 100 0 0
            (PyInts [32, 32, 3]) \<lparr>loads = 0\<rparr>
          :: (error + sym_pooled \<times> sym_pooled) \<times> world)
       = Inr (preprocess_fn 1 1 20 (build_image_map symbolic_tf (20 # [32, 32, 3]) True) AUTOTUNE
                (create_tf_dataset_from_all_clients (fst (''cifar_train'', ''cifar_test''))),
              preprocess_fn (if (0::int) \<le> 1 then 1 else 0) 1 100
                (build_image_map symbolic_tf (100 # [32, 32, 3]) False) AUTOTUNE
                (create_tf_dataset_from_all_clients (snd (''cifar_train'', ''cifar_test''))))"
    by (rule n [THEN conjunct2, THEN conjunct2, THEN conjunct2, THEN conjunct2, THEN conjunct2, THEN conjunct2, THEN conjunct2, THEN conjunct2, THEN conjunct1, THEN mp, THEN mp, THEN mp, OF len ctrain test])
  from z len plain train test a b c d f g h i show ?thesis
    by (simp add: preprocess_fn_def create_tf_dataset_from_all_clients_def)
qed

text \<open>
  C10. For valid arguments, the crop shape that \<open>get_federated_datasets\<close> and
  \<open>get_centralized_datasets\<close> pass down is the caller's \<open>(h, w, c)\<close> with the batch size
  in front, so indices 1 and 2 are the caller's height and width, and the plain transform
  of the pipelines resizes to height \<open>h\<close> and width \<open>w\<close>. \<open>build_image_map\<close> called with
  the 3-tuple itself reads \<open>w\<close> and \<open>c\<close> there.
\<close>

theorem crop_shape_passed_with_batch_size:
  "1 \<le> train_epochs \<Longrightarrow> 1 \<le> test_epochs \<Longrightarrow>
   traces tf train_epochs train_bs train_sb [train_bs, h, w, c] (\<not> s) \<Longrightarrow>
   traces tf test_epochs test_bs test_sb [test_bs, h, w, c] False \<Longrightarrow>
   traces tf 1 ctrain_bs ctrain_sb [ctrain_bs, h, w, c] True \<Longrightarrow>
   traces tf 1 ctest_bs ctest_sb [ctest_bs, h, w, c] False \<Longrightarrow>
   fst (get_federated_datasets tf provider train_bs test_bs train_epochs test_epochs
          train_sb test_sb (PyInts [h, w, c]) (PyBool s) wd)
     = Inr (preprocess (fst provider)
              (preprocess_fn (if train_sb \<le> 1 then 1 else train_sb) train_epochs train_bs
                 (build_image_map tf [train_bs, h, w, c] (\<not> s)) AUTOTUNE),
            preprocess (snd provider)
              (preprocess_fn (if test_sb \<le> 1 then 1 else test_sb) test_epochs test_bs
                 (build_image_map tf [test_bs, h, w, c] False) AUTOTUNE))
   \<and> fst (get_centralized_datasets tf cprovider ctrain_bs ctest_bs ctrain_sb ctest_sb
            (PyInts [h, w, c]) cwd)
     = Inr (preprocess_fn (if ctrain_sb \<le> 1 then 1 else ctrain_sb) 1 ctrain_bs
              (build_image_map tf [ctrain_bs, h, w, c] True) AUTOTUNE
              (create_tf_dataset_from_all_clients (fst cprovider)),
            preprocess_fn (if ctest_sb \<le> 1 then 1 else ctest_sb) 1 ctest_bs
              (build_image_map tf [ctest_bs, h, w, c] False) AUTOTUNE
              (create_tf_dataset_from_all_clients (snd cprovider)))
   \<and> getitem [b, h, w, c] 1 = Inr h \<and> getitem [b, h, w, c] 2 = Inr w
   \<and> build_image_map tf [b, h, w, c] False ex g = resized_to tf h w ex g
   \<and> getitem [h, w, c] 1 = Inr w \<and> getitem [h, w, c] 2 = Inr c
   \<and> build_image_map tf [h, w, c] False ex g = resized_to tf w c ex g"
  by (simp add: get_federated_datasets_valid get_centralized_datasets_valid
      build_image_map_plain getitem_def)

theorem crop_shape_passed_with_batch_size_witness:
  "(1::int) \<le> 1
   \<and> traces symbolic_tf 1 20 500 [20, 24, 28, 3] False
   \<and> traces symbolic_tf 1 100 1 [100, 24, 28, 3] False
   \<and> traces symbolic_tf 1 20 500 [20, 24, 28, 3] True
   \<and> fst (get_federated_datasets symbolic_tf (''cifar_train'', ''cifar_test'') 20 100 1 1 500 1
            (PyInts [24, 28, 3]) (PyBool True) \<lparr>loads = 0\<rparr>
          :: (error + sym_clients \<times> sym_clients) \<times> world)
       = Inr (preprocess ''cifar_train''
                (preprocess_fn 500 1 20 (build_image_map symbolic_tf [20, 24, 28, 3] False)
                   AUTOTUNE),
              preprocess ''cifar_test''
                (preprocess_fn 1 1 100 (build_image_map symbolic_tf [100, 24, 28, 3] False)
                   AUTOTUNE))
   \<and> build_image_map symbolic_tf [100, 24, 28, 3] False sample 0
       = (Inr (PerImageStandardization (ResizeWithCropOrPad (Cast (Placeholder ''image'')) 24 28),
               Placeholder ''label''), 0)
   \<and> build_image_map symbolic_tf [24, 28, 3] False sample 0
       = (Inr (PerImageStandardization (ResizeWithCropOrPad (Cast (Placeholder ''image'')) 28 3),
               Placeholder ''label''), 0)"
proof -
  have e: "(1::int) \<le> 1" by simp
  have train: "traces symbolic_tf 1 20 500 [20, 24, 28, 3] (\<not> True)"
    and test: "traces symbolic_tf 1 100 1 [100, 24, 28, 3] False"
    and ctrain: "traces symbolic_tf 1 20 500 [20, 24, 28, 3] True"
    by (simp_all add: symbolic_trace)
  note t = crop_shape_passed_with_batch_size [OF e e train test ctrain test]
  have fed:
    "fst (get_federated_datasets symbolic_tf (''cifar_train'', ''cifar_test'') 20 100 1 1 500 1
            (PyInts [24, 28, 3]) (PyBool True) \<lparr>loads = 0\<rparr>
          :: (error + sym_clients \<times> sym_clients) \<times> world)
       = Inr (preprocess (fst (''cifar_train'', ''cifar_test''))
                (preprocess_fn (if (500::int) \<le> 1 then 1 else 500) 1 20
                   (build_image_map symbolic_tf [20, 24, 28, 3] (\<not> True)) AUTOTUNE),
              preprocess (snd (''cifar_train'', ''cifar_test''))
                (preprocess_fn (if (1::int) \<le> 1 then 1 else 1) 1 100
                   (build_image_map symbolic_tf [100, 24, 28, 3] False) AUTOTUNE))"
    by (rule t [THEN conjunct1])
  have batched:
    "build_image_map symbolic_tf [100, 24, 28, 3] False sample (0::nat)
       = resized_to symbolic_tf 24 28 sample 0"
    by (rule t [THEN conjunct2, THEN conjunct2, THEN conjunct2, THEN conjunct2, THEN conjunct1])
  have direct:
    "build_image_map symbolic_tf [24, 28, 3] False sample (0::nat)
       = resized_to symbolic_tf 28 3 sample 0"
    by (rule t [THEN conjunct2, THEN conjunct2, THEN conjunct2, THEN conjunct2, THEN conjunct2, THEN conjunct2, THEN conjunct2])
  from e train test ctrain fed batched direct show ?thesis
    by (simp add: resized_to_def symbolic_tf_def sample_def)
qed

end
